theory Spec2Isabelle
  imports Complex_Main
begin

section \<open>Python values and the operators the model uses\<close>

text \<open>
  The source is dynamically typed Python. The values the calculation can meet are modelled
  by \<open>py_value\<close>: an \<open>int\<close>, a \<open>float\<close>, a \<open>str\<close> and \<open>None\<close>.
  A Python \<open>int\<close> is an unbounded integer. A Python \<open>float\<close> is read as a real
  number: rounding, overflow, infinities and not-a-number inputs are outside this model.
  What the external solver may hand back (including not-a-number) is the separate type
  \<open>irr_result\<close> below.
\<close>

datatype py_value = PyInt int | PyFloat real | PyStr string | PyNone

datatype py_error =
  KeyError string | TypeError | ZeroDivisionError | ValueError | IndexError

text \<open>Sequencing of computations that may raise: the first exception wins.\<close>

fun bind_r :: "py_error + 'a \<Rightarrow> ('a \<Rightarrow> py_error + 'b) \<Rightarrow> py_error + 'b" where
  "bind_r (Inl e) f = Inl e"
| "bind_r (Inr v) f = f v"

text \<open>The number an \<open>int\<close> or a \<open>float\<close> stands for; nothing for the other values.\<close>

fun num_of :: "py_value \<Rightarrow> real option" where
  "num_of (PyInt a) = Some (of_int a)"
| "num_of (PyFloat a) = Some a"
| "num_of (PyStr s) = None"
| "num_of PyNone = None"

text \<open>\<open>isinstance(v, (int, float))\<close>\<close>

fun isinstance_int_float :: "py_value \<Rightarrow> bool" where
  "isinstance_int_float (PyInt a) = True"
| "isinstance_int_float (PyFloat a) = True"
| "isinstance_int_float (PyStr s) = False"
| "isinstance_int_float PyNone = False"

text \<open>\<open>a + b\<close>: numbers add (the result is a float as soon as one operand is),
  strings concatenate, anything else raises TypeError.\<close>

fun py_add :: "py_value \<Rightarrow> py_value \<Rightarrow> py_error + py_value" where
  "py_add (PyInt a) (PyInt b) = Inr (PyInt (a + b))"
| "py_add (PyInt a) (PyFloat b) = Inr (PyFloat (of_int a + b))"
| "py_add (PyFloat a) (PyInt b) = Inr (PyFloat (a + of_int b))"
| "py_add (PyFloat a) (PyFloat b) = Inr (PyFloat (a + b))"
| "py_add (PyStr a) (PyStr b) = Inr (PyStr (a @ b))"
| "py_add _ _ = Inl TypeError"

text \<open>\<open>a - b\<close>: defined on numbers only.\<close>

fun py_sub :: "py_value \<Rightarrow> py_value \<Rightarrow> py_error + py_value" where
  "py_sub (PyInt a) (PyInt b) = Inr (PyInt (a - b))"
| "py_sub (PyInt a) (PyFloat b) = Inr (PyFloat (of_int a - b))"
| "py_sub (PyFloat a) (PyInt b) = Inr (PyFloat (a - of_int b))"
| "py_sub (PyFloat a) (PyFloat b) = Inr (PyFloat (a - b))"
| "py_sub _ _ = Inl TypeError"

text \<open>\<open>a * b\<close>: numbers multiply; an \<open>int\<close> times a \<open>str\<close> repeats the string
  (no repetition for a count below one); anything else raises TypeError.\<close>

fun py_mul :: "py_value \<Rightarrow> py_value \<Rightarrow> py_error + py_value" where
  "py_mul (PyInt a) (PyInt b) = Inr (PyInt (a * b))"
| "py_mul (PyInt a) (PyFloat b) = Inr (PyFloat (of_int a * b))"
| "py_mul (PyFloat a) (PyInt b) = Inr (PyFloat (a * of_int b))"
| "py_mul (PyFloat a) (PyFloat b) = Inr (PyFloat (a * b))"
| "py_mul (PyInt a) (PyStr s) = Inr (PyStr (concat (replicate (nat a) s)))"
| "py_mul (PyStr s) (PyInt a) = Inr (PyStr (concat (replicate (nat a) s)))"
| "py_mul _ _ = Inl TypeError"

text \<open>\<open>a / b\<close>: true division, always a float, ZeroDivisionError on a zero divisor.\<close>

fun py_truediv :: "py_value \<Rightarrow> py_value \<Rightarrow> py_error + py_value" where
  "py_truediv (PyInt a) (PyInt b) =
     (if b = 0 then Inl ZeroDivisionError else Inr (PyFloat (of_int a / of_int b)))"
| "py_truediv (PyInt a) (PyFloat b) =
     (if b = 0 then Inl ZeroDivisionError else Inr (PyFloat (of_int a / b)))"
| "py_truediv (PyFloat a) (PyInt b) =
     (if b = 0 then Inl ZeroDivisionError else Inr (PyFloat (a / of_int b)))"
| "py_truediv (PyFloat a) (PyFloat b) =
     (if b = 0 then Inl ZeroDivisionError else Inr (PyFloat (a / b)))"
| "py_truediv _ _ = Inl TypeError"

text \<open>\<open>-a\<close>\<close>

fun py_neg :: "py_value \<Rightarrow> py_error + py_value" where
  "py_neg (PyInt a) = Inr (PyInt (- a))"
| "py_neg (PyFloat a) = Inr (PyFloat (- a))"
| "py_neg _ = Inl TypeError"

text \<open>\<open>a ** year\<close> for a loop index \<open>year\<close> of \<open>range\<close>, a non-negative \<open>int\<close>:
  an \<open>int\<close> base stays an \<open>int\<close>, a \<open>float\<close> base stays a \<open>float\<close>.\<close>

fun py_pow :: "py_value \<Rightarrow> nat \<Rightarrow> py_error + py_value" where
  "py_pow (PyInt a) n = Inr (PyInt (a ^ n))"
| "py_pow (PyFloat a) n = Inr (PyFloat (a ^ n))"
| "py_pow _ n = Inl TypeError"

text \<open>\<open>a <= 0\<close> and \<open>a > 0\<close> against the literal \<open>0\<close>: a \<open>str\<close> or \<open>None\<close>
  cannot be ordered against an \<open>int\<close>.\<close>

fun py_le0 :: "py_value \<Rightarrow> py_error + bool" where
  "py_le0 (PyInt a) = Inr (a \<le> 0)"
| "py_le0 (PyFloat a) = Inr (a \<le> 0)"
| "py_le0 _ = Inl TypeError"

fun py_gt0 :: "py_value \<Rightarrow> py_error + bool" where
  "py_gt0 (PyInt a) = Inr (a > 0)"
| "py_gt0 (PyFloat a) = Inr (a > 0)"
| "py_gt0 _ = Inl TypeError"

text \<open>\<open>int(a)\<close>: a \<open>float\<close> is truncated towards zero. In \<open>calculate_cfroi\<close> the
  conversion is reached only after \<open>asset_life <= 0\<close> has been evaluated, which raises
  TypeError on a \<open>str\<close>; that branch is therefore never taken there and is given as
  ValueError, what \<open>int\<close> raises on a \<open>str\<close> that is no integer literal.\<close>

fun py_int :: "py_value \<Rightarrow> py_error + int" where
  "py_int (PyInt a) = Inr a"
| "py_int (PyFloat a) = Inr (if 0 \<le> a then \<lfloor>a\<rfloor> else \<lceil>a\<rceil>)"
| "py_int (PyStr s) = Inl ValueError"
| "py_int PyNone = Inl TypeError"

text \<open>\<open>range(n)\<close>: empty for \<open>n <= 0\<close>.\<close>

definition py_range :: "int \<Rightarrow> nat list" where
  "py_range n = [0..<nat n]"

text \<open>A \<open>dict\<close> with string keys: \<open>d[k]\<close> raises KeyError on a missing key,
  \<open>d.get(k, default)\<close> does not.\<close>

type_synonym py_dict = "string \<Rightarrow> py_value option"

definition subscript :: "py_dict \<Rightarrow> string \<Rightarrow> py_error + py_value" where
  "subscript d k = (case d k of None \<Rightarrow> Inl (KeyError k) | Some v \<Rightarrow> Inr v)"

definition dict_get :: "py_dict \<Rightarrow> string \<Rightarrow> py_value \<Rightarrow> py_value" where
  "dict_get d k dflt = (case d k of None \<Rightarrow> dflt | Some v \<Rightarrow> v)"

section \<open>The model object\<close>

text \<open>\<open>HoltCFROIModel\<close>: one field, set by \<open>__init__\<close>. Every method takes the
  object as its first argument, as in the source.\<close>

record HoltCFROIModel =
  inflation_rate :: real

definition init :: "HoltCFROIModel" where
  "init = \<lparr>inflation_rate = 0.02\<rparr>"

section \<open>The scalar calculators\<close>

text \<open>\<open>(gross_assets - accumulated_depreciation) * inflation_adjustment\<close>\<close>

definition calculate_gross_investment ::
  "HoltCFROIModel \<Rightarrow> py_value \<Rightarrow> py_value \<Rightarrow> py_value \<Rightarrow> py_error + py_value" where
  "calculate_gross_investment self gross_assets accumulated_depreciation inflation_adjustment =
     bind_r (py_sub gross_assets accumulated_depreciation)
       (\<lambda>d. py_mul d inflation_adjustment)"

text \<open>\<open>net_income + depreciation + interest_expense * 0.7 + rent_expense\<close>, evaluated
  left to right with \<open>*\<close> binding tighter than \<open>+\<close>.\<close>

definition calculate_gross_cash_flow ::
  "HoltCFROIModel \<Rightarrow> py_value \<Rightarrow> py_value \<Rightarrow> py_value \<Rightarrow> py_value \<Rightarrow> py_error + py_value" where
  "calculate_gross_cash_flow self net_income depreciation interest_expense rent_expense =
     bind_r (py_add net_income depreciation)
       (\<lambda>s1. bind_r (py_mul interest_expense (PyFloat 0.7))
         (\<lambda>p. bind_r (py_add s1 p)
           (\<lambda>s2. py_add s2 rent_expense)))"

text \<open>\<open>gross_assets / depreciation if depreciation > 0 else 0\<close>: the condition is
  evaluated first.\<close>

definition calculate_asset_life ::
  "HoltCFROIModel \<Rightarrow> py_value \<Rightarrow> py_value \<Rightarrow> py_error + py_value" where
  "calculate_asset_life self gross_assets depreciation =
     bind_r (py_gt0 depreciation)
       (\<lambda>c. if c then py_truediv gross_assets depreciation else Inr (PyInt 0))"

section \<open>The CFROI solver\<close>

text \<open>
  The rate-of-return solver \<open>npf.irr\<close> is external. It is a parameter of the model: given
  the cash-flow list it raises, returns not-a-number, or returns a rate.
\<close>

datatype irr_result = IrrRaises | IrrNaN | IrrRate real

type_synonym irr_solver = "py_value list \<Rightarrow> irr_result"

text \<open>\<open>asset_life <= 0 or gross_investment <= 0 or gross_cash_flow <= 0\<close>, with the
  short-circuit evaluation of \<open>or\<close>.\<close>

definition degenerate :: "py_value \<Rightarrow> py_value \<Rightarrow> py_value \<Rightarrow> py_error + bool" where
  "degenerate asset_life gross_investment gross_cash_flow =
     bind_r (py_le0 asset_life)
       (\<lambda>c1. if c1 then Inr True
             else bind_r (py_le0 gross_investment)
               (\<lambda>c2. if c2 then Inr True else py_le0 gross_cash_flow))"

text \<open>The loop \<open>for year in range(int(asset_life))\<close>, over the years still to visit:
  each turn appends \<open>gross_cash_flow * (1 - fade_rate) ** year\<close>.\<close>

fun project_cash_flows ::
  "py_value \<Rightarrow> py_value \<Rightarrow> nat list \<Rightarrow> py_value list \<Rightarrow> py_error + py_value list" where
  "project_cash_flows gross_cash_flow fade_rate [] cash_flows = Inr cash_flows"
| "project_cash_flows gross_cash_flow fade_rate (year # years) cash_flows =
     bind_r (py_sub (PyInt 1) fade_rate)
       (\<lambda>base. bind_r (py_pow base year)
         (\<lambda>power. bind_r (py_mul gross_cash_flow power)
           (\<lambda>projected_cf.
              project_cash_flows gross_cash_flow fade_rate years (cash_flows @ [projected_cf]))))"

text \<open>\<open>cash_flows[-1] += salvage_value\<close>: reads the last element (IndexError on an empty
  list), adds, and stores the sum in the same place.\<close>

definition add_to_last :: "py_value list \<Rightarrow> py_value \<Rightarrow> py_error + py_value list" where
  "add_to_last cash_flows salvage_value =
     (if cash_flows = [] then Inl IndexError
      else bind_r (py_add (last cash_flows) salvage_value)
        (\<lambda>v. Inr (cash_flows[length cash_flows - 1 := v])))"

text \<open>Lines 40 to 49 of the source: the list handed to the solver.\<close>

definition build_cash_flows ::
  "py_value \<Rightarrow> py_value \<Rightarrow> py_value \<Rightarrow> py_value \<Rightarrow> py_error + py_value list" where
  "build_cash_flows gross_cash_flow gross_investment asset_life fade_rate =
     bind_r (py_neg gross_investment)
       (\<lambda>outlay. bind_r (py_int asset_life)
         (\<lambda>n. bind_r (project_cash_flows gross_cash_flow fade_rate (py_range n) [outlay])
           (\<lambda>cash_flows. bind_r (py_mul gross_investment (PyFloat 0.1))
             (\<lambda>salvage_value. add_to_last cash_flows salvage_value))))"

text \<open>
  \<open>calculate_cfroi\<close>. The result is the returned value (or the exception that leaves the
  method) together with the log of the lists on which the solver was called. The guard
  stands before the \<open>try\<close>, so an exception of the guard leaves the method; every
  exception after it is answered by \<open>0.0\<close>. \<open>pd.isna\<close> answers not-a-number by
  \<open>0.0\<close>, and \<open>max(cfroi, 0.0)\<close> keeps \<open>cfroi\<close> unless \<open>0.0\<close> is greater. The
  \<open>print\<close> of the handler is not modelled.
\<close>

definition calculate_cfroi ::
  "HoltCFROIModel \<Rightarrow> irr_solver \<Rightarrow> py_value \<Rightarrow> py_value \<Rightarrow> py_value \<Rightarrow> py_value
     \<Rightarrow> (py_error + py_value) \<times> py_value list list" where
  "calculate_cfroi self irr gross_cash_flow gross_investment asset_life fade_rate =
     (case degenerate asset_life gross_investment gross_cash_flow of
        Inl e \<Rightarrow> (Inl e, [])
      | Inr True \<Rightarrow> (Inr (PyFloat 0), [])
      | Inr False \<Rightarrow>
          (case build_cash_flows gross_cash_flow gross_investment asset_life fade_rate of
             Inl e \<Rightarrow> (Inr (PyFloat 0), [])
           | Inr cash_flows \<Rightarrow>
               (case irr cash_flows of
                  IrrRaises \<Rightarrow> (Inr (PyFloat 0), [cash_flows])
                | IrrNaN \<Rightarrow> (Inr (PyFloat 0), [cash_flows])
                | IrrRate cfroi \<Rightarrow>
                    (Inr (PyFloat (if 0 > cfroi then 0 else cfroi)), [cash_flows]))))"


section \<open>Economic profit and the orchestration\<close>

definition calculate_economic_profit ::
  "HoltCFROIModel \<Rightarrow> py_value \<Rightarrow> py_value \<Rightarrow> py_value \<Rightarrow> py_error + py_value" where
  "calculate_economic_profit self cfroi cost_of_capital gross_investment =
     (if \<not> isinstance_int_float cfroi \<or> \<not> isinstance_int_float cost_of_capital
      then Inr (PyFloat 0)
      else bind_r (py_sub cfroi cost_of_capital) (\<lambda>d. py_mul d gross_investment))"

text \<open>The dictionary \<open>run_valuation\<close> returns: always these five keys.\<close>

record valuation_result =
  cfroi :: py_value
  economic_profit :: py_value
  gross_investment :: py_value
  gross_cash_flow :: py_value
  asset_life :: py_value

definition all_zero :: valuation_result where
  "all_zero = \<lparr>cfroi = PyFloat 0, economic_profit = PyFloat 0, gross_investment = PyFloat 0,
     gross_cash_flow = PyFloat 0, asset_life = PyFloat 0\<rparr>"

text \<open>The \<open>try\<close> block of \<open>run_valuation\<close>: arguments are evaluated left to right
  before each call.\<close>

definition valuation_body ::
  "HoltCFROIModel \<Rightarrow> irr_solver \<Rightarrow> py_dict \<Rightarrow> py_error + valuation_result" where
  "valuation_body self irr company_data =
     bind_r (subscript company_data ''gross_assets'') (\<lambda>ga.
     bind_r (subscript company_data ''accumulated_depreciation'') (\<lambda>ad.
     bind_r (calculate_gross_investment self ga ad
               (dict_get company_data ''inflation_adjustment'' (PyFloat 1))) (\<lambda>gi.
     bind_r (subscript company_data ''net_income'') (\<lambda>ni.
     bind_r (subscript company_data ''depreciation'') (\<lambda>dp.
     bind_r (subscript company_data ''interest_expense'') (\<lambda>ie.
     bind_r (subscript company_data ''rent_expense'') (\<lambda>re.
     bind_r (calculate_gross_cash_flow self ni dp ie re) (\<lambda>gcf.
     bind_r (subscript company_data ''gross_assets'') (\<lambda>ga2.
     bind_r (subscript company_data ''depreciation'') (\<lambda>dp2.
     bind_r (calculate_asset_life self ga2 dp2) (\<lambda>al.
     bind_r (fst (calculate_cfroi self irr gcf gi al
               (dict_get company_data ''fade_rate'' (PyFloat 0.04)))) (\<lambda>cf.
     bind_r (calculate_economic_profit self cf
               (dict_get company_data ''cost_of_capital'' (PyFloat 0.08)) gi) (\<lambda>ep.
     Inr \<lparr>cfroi = cf, economic_profit = ep, gross_investment = gi,
          gross_cash_flow = gcf, asset_life = al\<rparr>)))))))))))))"

text \<open>\<open>run_valuation\<close>: \<open>except Exception\<close> answers every exception of the block by
  the record of zeros.\<close>

definition run_valuation ::
  "HoltCFROIModel \<Rightarrow> irr_solver \<Rightarrow> py_dict \<Rightarrow> py_error + valuation_result" where
  "run_valuation self irr company_data =
     (case valuation_body self irr company_data of
        Inl e \<Rightarrow> Inr all_zero
      | Inr r \<Rightarrow> Inr r)"


section \<open>Example inputs\<close>

text \<open>A solver that answers every cash-flow list in the same way.\<close>

definition constant_solver :: "irr_result \<Rightarrow> irr_solver" where
  "constant_solver outcome cash_flows = outcome"

text \<open>The \<open>company_data\<close> of the source's example run.\<close>

definition company_data :: py_dict where
  "company_data = map_of
     [(''gross_assets'', PyInt 10000000),
      (''accumulated_depreciation'', PyInt 2000000),
      (''net_income'', PyInt 1500000),
      (''depreciation'', PyInt 500000),
      (''interest_expense'', PyInt 300000),
      (''rent_expense'', PyInt 200000),
      (''cost_of_capital'', PyFloat 0.08),
      (''fade_rate'', PyFloat 0.04)]"


section \<open>Arithmetic on numbers\<close>







lemma py_le0_num: "num_of a = Some x \<Longrightarrow> py_le0 a = Inr (x \<le> 0)"
  by (cases a) auto







section \<open>Building the cash-flow list\<close>

lemma degenerate_num:
  "num_of al = Some a \<Longrightarrow> num_of gi = Some i \<Longrightarrow> num_of gcf = Some g \<Longrightarrow>
   degenerate al gi gcf = Inr (a \<le> 0 \<or> i \<le> 0 \<or> g \<le> 0)"
  by (simp add: degenerate_def py_le0_num)




section \<open>The CFROI solver: claims\<close>



text \<open>
  C2. For numbers with \<open>assetLife <= 0\<close> or \<open>grossInvestment <= 0\<close> or
  \<open>grossCashFlow <= 0\<close>, \<open>calculate_cfroi\<close> returns \<open>0.0\<close> and the solver is not
  called: the log of its calls is empty, whatever the solver and the fade rate are.
\<close>

theorem degenerate_short_circuit:
  assumes "num_of gcf = Some g" and "num_of gi = Some i" and "num_of al = Some a"
    and "a \<le> 0 \<or> i \<le> 0 \<or> g \<le> 0"
  shows "calculate_cfroi self irr gcf gi al fr = (Inr (PyFloat 0), [])"
proof -
  have "degenerate al gi gcf = Inr True"
    using assms by (simp add: degenerate_num)
  then show ?thesis by (simp add: calculate_cfroi_def)
qed

theorem degenerate_short_circuit_witness:
  "calculate_cfroi init (constant_solver (IrrRate (1 / 4))) (PyInt 2410000) (PyInt 8000000)
      (PyInt 0) (PyFloat (1 / 25)) = (Inr (PyFloat 0), [])
   \<and> calculate_cfroi init (constant_solver (IrrRate (1 / 4))) (PyInt 2410000) (PyFloat (- 5))
      (PyFloat 20) (PyFloat (1 / 25)) = (Inr (PyFloat 0), [])
   \<and> calculate_cfroi init (constant_solver (IrrRate (1 / 4))) (PyFloat 0) (PyInt 8000000)
      (PyFloat 20) (PyFloat (1 / 25)) = (Inr (PyFloat 0), [])"
  using degenerate_short_circuit [of "PyInt 2410000" 2410000 "PyInt 8000000" 8000000 "PyInt 0" 0
      init "constant_solver (IrrRate (1 / 4))" "PyFloat (1 / 25)"]
    degenerate_short_circuit [of "PyInt 2410000" 2410000 "PyFloat (- 5)" "- 5" "PyFloat 20" 20
      init "constant_solver (IrrRate (1 / 4))" "PyFloat (1 / 25)"]
    degenerate_short_circuit [of "PyFloat 0" 0 "PyInt 8000000" 8000000 "PyFloat 20" 20
      init "constant_solver (IrrRate (1 / 4))" "PyFloat (1 / 25)"]
  by simp





section \<open>The scalar calculators: claims\<close>







section \<open>The orchestration: claims\<close>







section \<open>The unused field\<close>

text \<open>
  C10. The \<open>inflation_rate\<close> field of the model object has no effect: for any two model
  objects, each of the six methods is the same function of its other arguments.
\<close>

theorem inflation_rate_unobservable:
  "calculate_gross_investment s1 = calculate_gross_investment s2
   \<and> calculate_gross_cash_flow s1 = calculate_gross_cash_flow s2
   \<and> calculate_asset_life s1 = calculate_asset_life s2
   \<and> calculate_cfroi s1 = calculate_cfroi s2
   \<and> calculate_economic_profit s1 = calculate_economic_profit s2
   \<and> run_valuation s1 = run_valuation s2"
proof -
  have 1: "calculate_gross_investment s1 = calculate_gross_investment s2"
    by (simp add: fun_eq_iff calculate_gross_investment_def)
  have 2: "calculate_gross_cash_flow s1 = calculate_gross_cash_flow s2"
    by (simp add: fun_eq_iff calculate_gross_cash_flow_def)
  have 3: "calculate_asset_life s1 = calculate_asset_life s2"
    by (simp add: fun_eq_iff calculate_asset_life_def)
  have 4: "calculate_cfroi s1 = calculate_cfroi s2"
    by (simp add: fun_eq_iff calculate_cfroi_def)
  have 5: "calculate_economic_profit s1 = calculate_economic_profit s2"
    by (simp add: fun_eq_iff calculate_economic_profit_def)
  have "valuation_body s1 = valuation_body s2"
    by (simp add: fun_eq_iff valuation_body_def 1 2 3 4 5)
  then have 6: "run_valuation s1 = run_valuation s2"
    by (simp add: fun_eq_iff run_valuation_def)
  from 1 2 3 4 5 6 show ?thesis by simp
qed

end
